theory Spec2Isabelle
  imports Main "HOL-Library.AList"
begin

section \<open>Python values\<close>

text \<open>
  The node database, an NPC's dialogue tree and a parsed save file are nested Python
  dictionaries of type \<^verbatim>\<open>Dict[str, Any]\<close>. Their values are modelled by one datatype:
  \<open>None\<close>, booleans, (unbounded) integers, strings, lists, dictionaries with string
  keys, and callables. A dictionary is an association list in insertion order, read
  with \<^const>\<open>map_of\<close> and written with \<^const>\<open>AList.update\<close>; a Python dictionary holds
  every key once. Floating-point numbers are not modelled. A \<^typ>\<open>string\<close> is the
  sequence of the characters of the Python string (the Russian messages of the source
  are written as their UTF-8 bytes).

  A callable stored in the data is a name. What calling it does to the story is given
  by an environment (see \<open>env\<close> below), so that a callable may change any part of the
  story or raise, as Python allows. \<open>Lambda_noop\<close> is the literal \<^verbatim>\<open>lambda s: None\<close>.
\<close>

datatype callback = Lambda_noop | Named string

datatype pyval =
    PNone
  | PBool bool
  | PInt int
  | PStr string
  | PList "pyval list"
  | PDict "(string \<times> pyval) list"
  | PFun callback

text \<open>
  Exceptions are values. \<open>Raised e\<close>: the Python raises \<open>e\<close> and nothing in the
  engine catches it. \<open>Untyped\<close>: the Python goes on, but with a value of a type other
  than the annotated one in a field of the story (a \<^verbatim>\<open>path\<close> that is not a list of
  strings, say); the typed record below has no such state and nothing is proved about it.
  An operation that ends in a fault gives the fault only: the model does not say what
  state the exception leaves behind, except where the source catches it.
\<close>

datatype exn =
    KeyError
  | IndexError
  | TypeError
  | AttributeError
  | FileNotFoundError
  | PermissionError
  | JSONDecodeError
  | Callback_error string

datatype fault = Raised exn | Untyped

definition bind_r :: "fault + 'a \<Rightarrow> ('a \<Rightarrow> fault + 'b) \<Rightarrow> fault + 'b" where
  "bind_r m f = (case m of Inl e \<Rightarrow> Inl e | Inr x \<Rightarrow> f x)"

text \<open>Truth value of a Python object (\<^verbatim>\<open>if x:\<close>, \<^verbatim>\<open>not x\<close>).\<close>

fun truthy :: "pyval \<Rightarrow> bool" where
  "truthy PNone = False"
| "truthy (PBool b) = b"
| "truthy (PInt i) = (i \<noteq> 0)"
| "truthy (PStr s) = (s \<noteq> [])"
| "truthy (PList xs) = (xs \<noteq> [])"
| "truthy (PDict kvs) = (kvs \<noteq> [])"
| "truthy (PFun f) = True"

text \<open>\<^verbatim>\<open>s in t\<close> for two strings: \<open>s\<close> occurs in \<open>t\<close> as a substring.\<close>

fun is_substr :: "string \<Rightarrow> string \<Rightarrow> bool" where
  "is_substr s [] = (s = [])"
| "is_substr s (c # cs) = (take (length s) (c # cs) = s \<or> is_substr s cs)"

text \<open>
  \<^verbatim>\<open>key in x\<close> for a string \<open>key\<close>: membership among the keys of a dictionary, among
  the elements of a list, substring of a string; \<^verbatim>\<open>TypeError\<close> for an object that is
  not a container.
\<close>

fun py_in :: "string \<Rightarrow> pyval \<Rightarrow> fault + bool" where
  "py_in key (PDict kvs) = Inr (key \<in> fst ` set kvs)"
| "py_in key (PList xs) = Inr (PStr key \<in> set xs)"
| "py_in key (PStr s) = Inr (is_substr key s)"
| "py_in key v = Inl (Raised TypeError)"

text \<open>
  \<^verbatim>\<open>x[key]\<close> for a string \<open>key\<close>: \<^verbatim>\<open>KeyError\<close> when a dictionary has no such key,
  \<^verbatim>\<open>TypeError\<close> for every other object (a list and a string take integer indices, the
  rest cannot be subscripted).
\<close>

fun py_getitem :: "pyval \<Rightarrow> string \<Rightarrow> fault + pyval" where
  "py_getitem (PDict kvs) key =
     (case map_of kvs key of None \<Rightarrow> Inl (Raised KeyError) | Some v \<Rightarrow> Inr v)"
| "py_getitem v key = Inl (Raised TypeError)"

text \<open>\<^verbatim>\<open>x.get(key, dflt)\<close>: only a dictionary has the method.\<close>

fun py_get :: "pyval \<Rightarrow> string \<Rightarrow> pyval \<Rightarrow> fault + pyval" where
  "py_get (PDict kvs) key dflt =
     (case map_of kvs key of None \<Rightarrow> Inr dflt | Some v \<Rightarrow> Inr v)"
| "py_get v key dflt = Inl (Raised AttributeError)"

text \<open>\<^verbatim>\<open>x.items()\<close>: only a dictionary has the method.\<close>

fun py_items :: "pyval \<Rightarrow> fault + (string \<times> pyval) list" where
  "py_items (PDict kvs) = Inr kvs"
| "py_items v = Inl (Raised AttributeError)"

text \<open>
  \<^verbatim>\<open>x[i]\<close> for a literal index \<open>i \<ge> 0\<close>: an element of a list, a character of a string
  (a string of length one), \<^verbatim>\<open>IndexError\<close> beyond the end; a dictionary with string
  keys has no key \<open>i\<close>; the rest cannot be subscripted. A string with a character
  outside ASCII would be indexed by code point, which the byte model does not give.
\<close>

fun py_index :: "pyval \<Rightarrow> nat \<Rightarrow> fault + pyval" where
  "py_index (PList xs) i = (if i < length xs then Inr (xs ! i) else Inl (Raised IndexError))"
| "py_index (PStr s) i =
     (if \<not> list_all (\<lambda>c. (of_char c :: nat) < 128) s then Inl Untyped
      else if i < length s then Inr (PStr [s ! i]) else Inl (Raised IndexError))"
| "py_index (PDict kvs) i = Inl (Raised KeyError)"
| "py_index v i = Inl (Raised TypeError)"

text \<open>Conversions to the annotated types of the story's fields.\<close>

fun as_str :: "pyval \<Rightarrow> string option" where
  "as_str (PStr s) = Some s"
| "as_str v = None"

fun as_bool :: "pyval \<Rightarrow> bool option" where
  "as_bool (PBool b) = Some b"
| "as_bool v = None"

fun as_int :: "pyval \<Rightarrow> int option" where
  "as_int (PInt i) = Some i"
| "as_int v = None"

fun all_some :: "'a option list \<Rightarrow> 'a list option" where
  "all_some [] = Some []"
| "all_some (None # xs) = None"
| "all_some (Some x # xs) = (case all_some xs of None \<Rightarrow> None | Some ys \<Rightarrow> Some (x # ys))"

text \<open>\<^verbatim>\<open>List[str]\<close>: a list all of whose elements are strings.\<close>

fun as_str_list :: "pyval \<Rightarrow> string list option" where
  "as_str_list (PList xs) = all_some (map as_str xs)"
| "as_str_list v = None"

text \<open>\<^verbatim>\<open>Dict[str, bool]\<close>: a dictionary all of whose values are booleans.\<close>

fun as_bool_dict :: "pyval \<Rightarrow> (string \<times> bool) list option" where
  "as_bool_dict (PDict kvs) =
     (case all_some (map (\<lambda>(k, v). as_bool v) kvs) of
        None \<Rightarrow> None
      | Some bs \<Rightarrow> Some (zip (map fst kvs) bs))"
| "as_bool_dict v = None"

section \<open>HealthSystem\<close>

text \<open>
  \<^verbatim>\<open>class HealthSystem\<close> holds one Python integer, \<^verbatim>\<open>_hp\<close>. The constructor stores
  \<^verbatim>\<open>initial_hp\<close> as it is given (it does not clamp).
\<close>

record HealthSystem =
  hp :: int

definition HealthSystem_init :: "int \<Rightarrow> HealthSystem" where
  "HealthSystem_init initial_hp = \<lparr>hp = initial_hp\<rparr>"

text \<open>\<^verbatim>\<open>core.py\<close>: \<^verbatim>\<open>self._hp = max(0, self._hp + amount)\<close>.\<close>

definition modify_hp :: "HealthSystem \<Rightarrow> int \<Rightarrow> HealthSystem" where
  "modify_hp h amount = h\<lparr>hp := max 0 (hp h + amount)\<rparr>"

text \<open>
  \<^verbatim>\<open>story_engine.py\<close>: \<^verbatim>\<open>self._hp += amount\<close>, then \<^verbatim>\<open>if self._hp < 0: self._hp = 0\<close>.
\<close>

definition modify_hp_tui :: "HealthSystem \<Rightarrow> int \<Rightarrow> HealthSystem" where
  "modify_hp_tui h amount =
     (let h1 = h\<lparr>hp := hp h + amount\<rparr>
      in if hp h1 < 0 then h1\<lparr>hp := 0\<rparr> else h1)"

definition get_hp :: "HealthSystem \<Rightarrow> int" where
  "get_hp h = hp h"

text \<open>A sequence of calls \<^verbatim>\<open>modify_hp(d1); ...; modify_hp(dn)\<close> on one object.\<close>

fun modify_hp_seq :: "HealthSystem \<Rightarrow> int list \<Rightarrow> HealthSystem" where
  "modify_hp_seq h [] = h"
| "modify_hp_seq h (d # ds) = modify_hp_seq (modify_hp h d) ds"

section \<open>Inventory\<close>

text \<open>
  \<^verbatim>\<open>Inventory._items\<close> maps a slot name to a list that is empty or
  \<^verbatim>\<open>[item, description, function]\<close>. The constructor creates the eleven slots, empty.
  \<^verbatim>\<open>add_item\<close> and \<^verbatim>\<open>remove_item\<close> are plain dictionary assignments
  \<^verbatim>\<open>self._items[slot] = ...\<close> with no check of \<open>slot\<close>. The type \<open>'f\<close> is the type of
  the items' functions: the two variants of the engine store callables that take
  different arguments.
\<close>

datatype 'f slot = Empty | Item string string 'f

type_synonym 'f Inventory = "(string \<times> 'f slot) list"

definition slot_names :: "string list" where
  "slot_names = [''Head'', ''Neck'', ''Ears'', ''Mouth'', ''Right hand'', ''Left hand'',
     ''Back'', ''Right leg'', ''Left leg'', ''Right leg bottom'', ''Left leg bottom'']"

definition Inventory_init :: "'f Inventory" where
  "Inventory_init = map (\<lambda>slot. (slot, Empty)) slot_names"

definition add_item :: "'f Inventory \<Rightarrow> string \<Rightarrow> string \<Rightarrow> string \<Rightarrow> 'f \<Rightarrow> 'f Inventory" where
  "add_item items slot item description function =
     AList.update slot (Item item description function) items"

definition remove_item :: "'f Inventory \<Rightarrow> string \<Rightarrow> 'f Inventory" where
  "remove_item items slot = AList.update slot Empty items"

text \<open>\<^verbatim>\<open>core.py\<close>: \<^verbatim>\<open>{slot: data for slot, data in self._items.items() if data}\<close>.\<close>

definition get_items :: "'f Inventory \<Rightarrow> 'f Inventory" where
  "get_items items = filter (\<lambda>(slot, data). data \<noteq> Empty) items"

text \<open>\<^verbatim>\<open>story_engine.py\<close>: \<^verbatim>\<open>get_items\<close> returns \<^verbatim>\<open>self._items\<close> itself.\<close>

definition get_items_tui :: "'f Inventory \<Rightarrow> 'f Inventory" where
  "get_items_tui items = items"

text \<open>The two mutating operations, and a sequence of them on one inventory.\<close>

datatype 'f inventory_op = Add_item string string string 'f | Remove_item string

fun inventory_step :: "'f Inventory \<Rightarrow> 'f inventory_op \<Rightarrow> 'f Inventory" where
  "inventory_step items (Add_item slot item description function) =
     add_item items slot item description function"
| "inventory_step items (Remove_item slot) = remove_item items slot"

fun op_slot :: "'f inventory_op \<Rightarrow> string" where
  "op_slot (Add_item slot item description function) = slot"
| "op_slot (Remove_item slot) = slot"

definition inventory_run :: "'f Inventory \<Rightarrow> 'f inventory_op list \<Rightarrow> 'f Inventory" where
  "inventory_run items ops = foldl inventory_step items ops"

section \<open>Achievements\<close>

type_synonym Achievements = "(string \<times> string) list"

definition Achievements_init :: Achievements where
  "Achievements_init = []"

definition add_achievement :: "Achievements \<Rightarrow> string \<Rightarrow> string \<Rightarrow> Achievements" where
  "add_achievement a name description = AList.update name description a"

definition get_achievements :: "Achievements \<Rightarrow> Achievements" where
  "get_achievements a = a"

section \<open>The story\<close>

text \<open>
  Messages. The engine builds two of its log lines with f-strings; the text that
  \<^verbatim>\<open>str()\<close> gives for an arbitrary object is not a function of the modelled value (for a
  callable it holds an address), so a message is a list of fragments and \<open>Str_of v\<close>
  stands for the text of \<open>v\<close>, \<open>Str_of_exn e\<close> for the text of an exception. The style
  of a message is a member of \<^verbatim>\<open>MessageType\<close>, a string, or \<open>None\<close>.
\<close>

datatype fragment = Lit string | Str_of pyval | Str_of_exn exn

type_synonym message = "fragment list"

datatype style = INFO | IMPORTANT | SOUND | ANIMATION | Style string

fun fmt :: "pyval \<Rightarrow> fragment" where
  "fmt (PStr s) = Lit s"
| "fmt v = Str_of v"

type_synonym EventLog = "(message \<times> style option) list"

record Effect =
  name :: string
  duration :: int
  apply_fn :: callback
  expire :: "callback option"

record Puzzle =
  question :: string
  options :: "string list"
  answer_index :: int
  on_success :: "callback option"
  on_fail :: "callback option"

record NPC =
  npc_name :: string
  dialogue :: pyval
  dialogue_path :: "string list"

text \<open>
  The fields of \<^verbatim>\<open>class Story\<close>, with their annotated types. \<^verbatim>\<open>Effect\<close> objects are
  mutated in place while the engine iterates over a snapshot of the registry, so the
  registry \<open>effects\<close> maps a name to the address of an object and \<open>effect_objs\<close> is
  the store of the objects. \<open>invoked\<close> is a history variable, not a field of the
  source: the callbacks the engine itself has called, in order. The background thread
  and its fields are not modelled; the loop it runs calls \<^verbatim>\<open>_update_effects\<close> once in
  every iteration.
\<close>

record story =
  database :: pyval
  flags :: "(string \<times> bool) list"
  inventory :: "callback Inventory"
  achievements :: Achievements
  health :: HealthSystem
  event_log :: EventLog
  messages :: "(message \<times> style option) list"
  story_map :: "(string list \<times> pyval) list"
  npcs :: "(string \<times> NPC) list"
  effects :: "(string \<times> nat) list"
  effect_objs :: "nat \<Rightarrow> Effect"
  current_puzzle :: "Puzzle option"
  path :: "string list"
  invoked :: "callback list"

text \<open>
  The environment gives every named callable its behaviour: a function of the whole
  story that returns the story it leaves behind, or raises.
\<close>

type_synonym env = "string \<Rightarrow> story \<Rightarrow> fault + story"

text \<open>What the callable does when it is called with the story.\<close>

definition call :: "env \<Rightarrow> callback \<Rightarrow> story \<Rightarrow> fault + story" where
  "call env f s = (case f of Lambda_noop \<Rightarrow> Inr s | Named n \<Rightarrow> env n s)"

text \<open>A call made by the engine: the call itself, and its record in the history.\<close>

definition invoke :: "env \<Rightarrow> callback \<Rightarrow> story \<Rightarrow> fault + story" where
  "invoke env f s =
     (case call env f s of
        Inl e \<Rightarrow> Inl e
      | Inr s' \<Rightarrow> Inr (s'\<lparr>invoked := invoked s @ [f]\<rparr>))"


definition no_effect :: Effect where
  "no_effect = \<lparr>name = [], duration = 0, apply_fn = Lambda_noop, expire = None\<rparr>"

text \<open>\<^verbatim>\<open>Story.__init__\<close>: \<^verbatim>\<open>values or {}\<close>, hit points 10, everything else empty.\<close>

definition Story_init :: "pyval \<Rightarrow> (string \<times> bool) list option \<Rightarrow> story" where
  "Story_init db values =
     \<lparr>database = db,
      flags = (case values of None \<Rightarrow> [] | Some v \<Rightarrow> v),
      inventory = Inventory_init,
      achievements = Achievements_init,
      health = HealthSystem_init 10,
      event_log = [],
      messages = [],
      story_map = [],
      npcs = [],
      effects = [],
      effect_objs = (\<lambda>a. no_effect),
      current_puzzle = None,
      path = [],
      invoked = []\<rparr>"

definition Story_print :: "story \<Rightarrow> message \<Rightarrow> style option \<Rightarrow> story" where
  "Story_print s m st = s\<lparr>messages := messages s @ [(m, st)]\<rparr>"

text \<open>\<^verbatim>\<open>EventLog.log\<close>: append to the entries, then \<^verbatim>\<open>story.print\<close>.\<close>

definition EventLog_log :: "story \<Rightarrow> message \<Rightarrow> style option \<Rightarrow> story" where
  "EventLog_log s m st = Story_print (s\<lparr>event_log := event_log s @ [(m, st)]\<rparr>) m st"

definition clear_messages :: "story \<Rightarrow> story" where
  "clear_messages s = s\<lparr>messages := []\<rparr>"

definition jump_to :: "story \<Rightarrow> string list \<Rightarrow> story" where
  "jump_to s new_path = s\<lparr>path := new_path\<rparr>"

definition Story_add_item :: "story \<Rightarrow> string \<Rightarrow> string \<Rightarrow> string \<Rightarrow> callback \<Rightarrow> story" where
  "Story_add_item s slot item description function =
     s\<lparr>inventory := add_item (inventory s) slot item description function\<rparr>"

definition Story_remove_item :: "story \<Rightarrow> string \<Rightarrow> story" where
  "Story_remove_item s slot = s\<lparr>inventory := remove_item (inventory s) slot\<rparr>"

text \<open>
  \<^verbatim>\<open>Story.get_items\<close>: the name and the description of every occupied slot
  (\<^verbatim>\<open>{"name": data[0], "description": data[1]}\<close>).
\<close>

fun slot_info :: "string \<times> 'f slot \<Rightarrow> (string \<times> string \<times> string) list" where
  "slot_info (slot, Item item description function) = [(slot, item, description)]"
| "slot_info (slot, Empty) = []"

definition Story_get_items :: "story \<Rightarrow> (string \<times> string \<times> string) list" where
  "Story_get_items s = concat (map slot_info (get_items (inventory s)))"

definition set_flag :: "story \<Rightarrow> string \<Rightarrow> bool \<Rightarrow> story" where
  "set_flag s key v = s\<lparr>flags := AList.update key v (flags s)\<rparr>"

definition get_flag :: "story \<Rightarrow> string \<Rightarrow> bool" where
  "get_flag s key = (case map_of (flags s) key of None \<Rightarrow> False | Some b \<Rightarrow> b)"

definition Story_modify_hp :: "story \<Rightarrow> int \<Rightarrow> story" where
  "Story_modify_hp s amount = s\<lparr>health := modify_hp (health s) amount\<rparr>"

definition Story_get_hp :: "story \<Rightarrow> int" where
  "Story_get_hp s = get_hp (health s)"

definition Story_add_achievement :: "story \<Rightarrow> string \<Rightarrow> string \<Rightarrow> story" where
  "Story_add_achievement s n description =
     s\<lparr>achievements := add_achievement (achievements s) n description\<rparr>"

definition Story_get_achievements :: "story \<Rightarrow> Achievements" where
  "Story_get_achievements s = get_achievements (achievements s)"

subsection \<open>Path traversal\<close>

text \<open>The loop \<^verbatim>\<open>for step in path: node = node[step]\<close>.\<close>

fun walk :: "pyval \<Rightarrow> string list \<Rightarrow> fault + pyval" where
  "walk node [] = Inr node"
| "walk node (p # ps) = (case py_getitem node p of Inl e \<Rightarrow> Inl e | Inr n \<Rightarrow> walk n ps)"

text \<open>
  \<^verbatim>\<open>Story._get_node\<close>: the walk from the root of the database; on success the node is
  registered in the story map under the path; \<^verbatim>\<open>except KeyError: return {}\<close>. Any other
  exception of the walk propagates.
\<close>

definition Story_get_node :: "story \<Rightarrow> fault + (pyval \<times> story)" where
  "Story_get_node s =
     (case walk (database s) (path s) of
        Inl e \<Rightarrow> (if e = Raised KeyError then Inr (PDict [], s) else Inl e)
      | Inr node \<Rightarrow> Inr (node, s\<lparr>story_map := AList.update (path s) node (story_map s)\<rparr>))"

text \<open>
  \<^verbatim>\<open>if "function" in d and callable(d["function"]): d["function"](self)\<close>, for the
  node and for the choice record. Of the modelled values only \<open>PFun\<close> is callable.
\<close>

definition run_function :: "env \<Rightarrow> pyval \<Rightarrow> story \<Rightarrow> fault + story" where
  "run_function env d s =
     bind_r (py_in ''function'' d) (\<lambda>present.
       if \<not> present then Inr s
       else bind_r (py_getitem d ''function'') (\<lambda>f.
         case f of PFun cb \<Rightarrow> invoke env cb s | _ \<Rightarrow> Inr s))"

text \<open>
  \<^verbatim>\<open>self.path = next_path.copy()\<close>. A list and a dictionary have the method; the path
  is a list of strings.
\<close>

fun copy_path :: "pyval \<Rightarrow> fault + string list" where
  "copy_path (PList xs) =
     (case all_some (map as_str xs) of None \<Rightarrow> Inl Untyped | Some p \<Rightarrow> Inr p)"
| "copy_path (PDict kvs) = Inl Untyped"
| "copy_path v = Inl (Raised AttributeError)"

definition bad_path_msg :: string where
  "bad_path_msg = [CHR 0xD0, CHR 0x9D, CHR 0xD0, CHR 0xB5, CHR 0xD0, CHR 0xB2, CHR 0xD0,
     CHR 0xB5, CHR 0xD1, CHR 0x80, CHR 0xD0, CHR 0xBD, CHR 0xD1, CHR 0x8B, CHR 0xD0, CHR 0xB9,
     CHR 0x20, CHR 0xD0, CHR 0xBF, CHR 0xD1, CHR 0x83, CHR 0xD1, CHR 0x82, CHR 0xD1, CHR 0x8C,
     CHR 0x2E]"

definition bad_choice_msg :: string where
  "bad_choice_msg = [CHR 0xD0, CHR 0x9D, CHR 0xD0, CHR 0xB5, CHR 0xD0, CHR 0xB2, CHR 0xD0,
     CHR 0xB5, CHR 0xD1, CHR 0x80, CHR 0xD0, CHR 0xBD, CHR 0xD1, CHR 0x8B, CHR 0xD0, CHR 0xB9,
     CHR 0x20, CHR 0xD0, CHR 0xB2, CHR 0xD1, CHR 0x8B, CHR 0xD0, CHR 0xB1, CHR 0xD0, CHR 0xBE,
     CHR 0xD1, CHR 0x80, CHR 0x2E]"

text \<open>The result \<^verbatim>\<open>{"error": msg}\<close>.\<close>

definition error_result :: "string \<Rightarrow> pyval" where
  "error_result msg = PDict [(''error'', PStr msg)]"

text \<open>
  \<^verbatim>\<open>Story.step\<close>. The local variable \<open>node\<close> is the node found before the entry
  function runs; the node returned at the end is resolved again, after the callbacks.
\<close>

definition step :: "env \<Rightarrow> story \<Rightarrow> string option \<Rightarrow> fault + (pyval \<times> story)" where
  "step env s0 answer =
     bind_r (Story_get_node s0) (\<lambda>(node, s1).
       if \<not> truthy node then Inr (error_result bad_path_msg, s1)
       else bind_r (run_function env node s1) (\<lambda>s2.
         case answer of
           None \<Rightarrow> Story_get_node s2
         | Some a \<Rightarrow>
             bind_r (py_get node ''answers'' (PDict [])) (\<lambda>answers.
             bind_r (py_in a answers) (\<lambda>present.
               if \<not> present then Inr (error_result bad_choice_msg, s2)
               else
                 bind_r (py_getitem answers a) (\<lambda>choice_data.
                 bind_r (run_function env choice_data s2) (\<lambda>s3.
                 bind_r (py_get choice_data ''next_path'' PNone) (\<lambda>next_path.
                 bind_r (if next_path \<noteq> PNone
                         then bind_r (copy_path next_path) (\<lambda>p. Inr (s3\<lparr>path := p\<rparr>))
                         else Inr s3) (\<lambda>s4.
                 Story_get_node s4))))))))"

subsection \<open>Puzzle\<close>



subsection \<open>NPC dialogue\<close>

text \<open>\<^verbatim>\<open>NPC._get_node\<close>: the same walk, from the root of the dialogue, with no \<^verbatim>\<open>try\<close>.\<close>

definition NPC_get_node :: "NPC \<Rightarrow> fault + pyval" where
  "NPC_get_node npc = walk (dialogue npc) (dialogue_path npc)"

definition NPC_init :: "string \<Rightarrow> pyval \<Rightarrow> NPC" where
  "NPC_init n d = \<lparr>npc_name = n, dialogue = d, dialogue_path = []\<rparr>"

text \<open>
  \<^verbatim>\<open>NPC.talk\<close> returns the node or \<^verbatim>\<open>{"error": "Invalid choice."}\<close>, and changes the
  cursor of the NPC and the log of the story. \<^verbatim>\<open>if choice:\<close> is false for \<open>None\<close> and
  for the empty string. The cursor is assigned before the node it names is resolved.
\<close>

definition talk :: "NPC \<Rightarrow> story \<Rightarrow> string option \<Rightarrow> fault + (pyval \<times> NPC \<times> story)" where
  "talk npc s choice =
     bind_r (NPC_get_node npc) (\<lambda>node.
     bind_r (py_get node ''text'' (PStr [])) (\<lambda>text.
       let s1 = EventLog_log s
                  [Lit ''Talking to '', Lit (npc_name npc), Lit '': '', fmt text] (Some INFO)
       in case choice of
            None \<Rightarrow> Inr (node, npc, s1)
          | Some c \<Rightarrow>
              if c = [] then Inr (node, npc, s1)
              else
                bind_r (py_get node ''responses'' (PDict [])) (\<lambda>answers.
                bind_r (py_in c answers) (\<lambda>present.
                  if present then
                    bind_r (py_getitem answers c) (\<lambda>response.
                    bind_r (py_get response ''next'' (PList [])) (\<lambda>next.
                      case as_str_list next of
                        None \<Rightarrow> Inl Untyped
                      | Some p \<Rightarrow>
                          let npc1 = npc\<lparr>dialogue_path := p\<rparr>
                          in bind_r (NPC_get_node npc1) (\<lambda>n. Inr (n, npc1, s1))))
                  else Inr (error_result ''Invalid choice.'', npc, s1)))))"

definition register_npc :: "story \<Rightarrow> NPC \<Rightarrow> story" where
  "register_npc s npc = s\<lparr>npcs := AList.update (npc_name npc) npc (npcs s)\<rparr>"

text \<open>
  \<^verbatim>\<open>Story.talk_to\<close>: \<open>None\<close> for an unknown name; the NPC registered under the name is
  the object that \<^verbatim>\<open>talk\<close> changes.
\<close>

definition talk_to :: "story \<Rightarrow> string \<Rightarrow> string option \<Rightarrow> fault + (pyval \<times> story)" where
  "talk_to s n choice =
     (case map_of (npcs s) n of
        None \<Rightarrow> Inr (PNone, s)
      | Some npc \<Rightarrow>
          bind_r (talk npc s choice) (\<lambda>(r, npc1, s1).
            Inr (r, s1\<lparr>npcs := AList.update n npc1 (npcs s1)\<rparr>)))"

subsection \<open>Effects\<close>





subsection \<open>Saving and loading\<close>

text \<open>
  A named resource is absent, cannot be opened (\<open>Locked\<close>), holds text that is not
  JSON (\<open>Garbage\<close>), or holds a JSON document, given by the Python value that
  \<^verbatim>\<open>json.load\<close> returns for it. \<^verbatim>\<open>json.dump\<close> of a value built from dictionaries with
  string keys, lists, strings, integers, booleans and \<open>None\<close> writes a document that
  loads as the same value; it raises \<^verbatim>\<open>TypeError\<close> for a callable.
\<close>

datatype resource = Locked | Garbage | Document pyval

type_synonym fs = "string \<Rightarrow> resource option"

fun json_ok :: "pyval \<Rightarrow> bool" where
  "json_ok (PFun f) = False"
| "json_ok (PList xs) = (\<forall>x \<in> set xs. json_ok x)"
| "json_ok (PDict kvs) = (\<forall>v \<in> snd ` set kvs. json_ok v)"
| "json_ok v = True"

text \<open>The list stored in a slot, and \<^verbatim>\<open>data[:2]\<close>.\<close>

fun slot_list :: "callback slot \<Rightarrow> pyval list" where
  "slot_list Empty = []"
| "slot_list (Item item description function) = [PStr item, PStr description, PFun function]"

definition saved_state :: "story \<Rightarrow> pyval" where
  "saved_state s = PDict
     [(''hp'', PInt (get_hp (health s))),
      (''inventory'',
         PDict (map (\<lambda>(slot, data). (slot, PList (take 2 (slot_list data))))
                  (get_items (inventory s)))),
      (''achievements'',
         PDict (map (\<lambda>(k, v). (k, PStr v)) (get_achievements (achievements s)))),
      (''flags'', PDict (map (\<lambda>(k, b). (k, PBool b)) (flags s))),
      (''path'', PList (map PStr (path s)))]"

text \<open>\<^verbatim>\<open>Story.save_state\<close>: open the resource for writing, dump the state.\<close>

definition save_state :: "story \<Rightarrow> string \<Rightarrow> fs \<Rightarrow> fault + fs" where
  "save_state s filename files =
     (if files filename = Some Locked then Inl (Raised PermissionError)
      else if json_ok (saved_state s)
        then Inr (files(filename := Some (Document (saved_state s))))
        else Inl (Raised TypeError))"

definition read_json :: "fs \<Rightarrow> string \<Rightarrow> fault + pyval" where
  "read_json files filename =
     (case files filename of
        None \<Rightarrow> Inl (Raised FileNotFoundError)
      | Some Locked \<Rightarrow> Inl (Raised PermissionError)
      | Some Garbage \<Rightarrow> Inl (Raised JSONDecodeError)
      | Some (Document v) \<Rightarrow> Inr v)"

text \<open>
  The two loops of \<^verbatim>\<open>load_state\<close>: \<^verbatim>\<open>add_achievement(ach, desc)\<close> for every item, and
  \<^verbatim>\<open>add_item(slot, data[0], data[1], lambda s: None)\<close> for every item.
\<close>

fun load_achievements :: "(string \<times> pyval) list \<Rightarrow> Achievements \<Rightarrow> fault + Achievements" where
  "load_achievements [] a = Inr a"
| "load_achievements ((ach, desc) # rest) a =
     (case as_str desc of
        None \<Rightarrow> Inl Untyped
      | Some d \<Rightarrow> load_achievements rest (add_achievement a ach d))"

fun load_inventory :: "(string \<times> pyval) list \<Rightarrow> callback Inventory
    \<Rightarrow> fault + callback Inventory" where
  "load_inventory [] items = Inr items"
| "load_inventory ((slot, data) # rest) items =
     bind_r (py_index data 0) (\<lambda>x0.
     bind_r (py_index data 1) (\<lambda>x1.
       case (as_str x0, as_str x1) of
         (Some item, Some description) \<Rightarrow>
           load_inventory rest (add_item items slot item description Lambda_noop)
       | _ \<Rightarrow> Inl Untyped))"

text \<open>
  \<^verbatim>\<open>Story.load_state\<close> of \<^verbatim>\<open>core.py\<close>: no \<^verbatim>\<open>try\<close>; every key is read with
  \<^verbatim>\<open>state.get(key, default)\<close>.
\<close>

definition load_state :: "story \<Rightarrow> string \<Rightarrow> fs \<Rightarrow> fault + story" where
  "load_state s filename files =
     bind_r (read_json files filename) (\<lambda>state.
     bind_r (py_get state ''hp'' (PInt 0)) (\<lambda>h.
     case as_int h of None \<Rightarrow> Inl Untyped | Some n \<Rightarrow>
     bind_r (py_get state ''achievements'' (PDict [])) (\<lambda>a.
     bind_r (py_items a) (\<lambda>a_items.
     bind_r (load_achievements a_items Achievements_init) (\<lambda>achs.
     bind_r (py_get state ''inventory'' (PDict [])) (\<lambda>i.
     bind_r (py_items i) (\<lambda>i_items.
     bind_r (load_inventory i_items Inventory_init) (\<lambda>its.
     bind_r (py_get state ''flags'' (PDict [])) (\<lambda>f.
     case as_bool_dict f of None \<Rightarrow> Inl Untyped | Some fl \<Rightarrow>
     bind_r (py_get state ''path'' (PList [])) (\<lambda>p.
     case as_str_list p of None \<Rightarrow> Inl Untyped | Some pth \<Rightarrow>
       Inr (s\<lparr>health := HealthSystem_init n, achievements := achs, inventory := its,
              flags := fl, path := pth\<rparr>)))))))))))"

section \<open>The terminal variant\<close>

text \<open>
  \<^verbatim>\<open>story_engine.py\<close> holds an older \<^verbatim>\<open>class Story\<close>, tied to a terminal interface. Of its
  state, \<^verbatim>\<open>load_state\<close> touches the health, the achievements, the inventory and, through
  \<^verbatim>\<open>self.print\<close>, the message buffer (the console is not modelled). Its items are added
  again with \<^verbatim>\<open>lambda: None\<close>, a callable of no argument.
\<close>

datatype plain_callable = Lambda_none | Plain string

record story_tui =
  tui_inventory :: "plain_callable Inventory"
  tui_achievements :: Achievements
  tui_health :: HealthSystem
  tui_messages :: "(message \<times> style option) list"

definition print_tui :: "story_tui \<Rightarrow> message \<Rightarrow> style option \<Rightarrow> story_tui" where
  "print_tui s m st = s\<lparr>tui_messages := tui_messages s @ [(m, st)]\<rparr>"

definition load_error_msg :: string where
  "load_error_msg = [CHR 0xD0, CHR 0x9E, CHR 0xD1, CHR 0x88, CHR 0xD0, CHR 0xB8, CHR 0xD0,
     CHR 0xB1, CHR 0xD0, CHR 0xBA, CHR 0xD0, CHR 0xB0, CHR 0x20, CHR 0xD0, CHR 0xB7, CHR 0xD0,
     CHR 0xB0, CHR 0xD0, CHR 0xB3, CHR 0xD1, CHR 0x80, CHR 0xD1, CHR 0x83, CHR 0xD0, CHR 0xB7,
     CHR 0xD0, CHR 0xBA, CHR 0xD0, CHR 0xB8, CHR 0x20, CHR 0xD1, CHR 0x81, CHR 0xD0, CHR 0xBE,
     CHR 0xD1, CHR 0x81, CHR 0xD1, CHR 0x82, CHR 0xD0, CHR 0xBE, CHR 0xD1, CHR 0x8F, CHR 0xD0,
     CHR 0xBD, CHR 0xD0, CHR 0xB8, CHR 0xD1, CHR 0x8F, CHR 0x3A, CHR 0x20]"

text \<open>
  \<^verbatim>\<open>except Exception as e: self.print(f"...{e}", style="bold red")\<close>, in the story as
  it is when the exception is raised.
\<close>

definition report :: "story_tui \<Rightarrow> fault \<Rightarrow> fault + story_tui" where
  "report s e =
     (case e of
        Raised x \<Rightarrow> Inr (print_tui s [Lit load_error_msg, Str_of_exn x] (Some (Style ''bold red'')))
      | Untyped \<Rightarrow> Inl Untyped)"

text \<open>
  The loop over the saved inventory; an exception leaves the slots filled so far. The
  result is the inventory reached and the fault that stopped the loop, if any.
\<close>

fun load_inventory_tui :: "(string \<times> pyval) list \<Rightarrow> plain_callable Inventory
    \<Rightarrow> plain_callable Inventory \<times> fault option" where
  "load_inventory_tui [] items = (items, None)"
| "load_inventory_tui ((slot, item) # rest) items =
     (case py_index item 0 of
        Inl e \<Rightarrow> (items, Some e)
      | Inr x0 \<Rightarrow>
          (case py_index item 1 of
             Inl e \<Rightarrow> (items, Some e)
           | Inr x1 \<Rightarrow>
               (case (as_str x0, as_str x1) of
                  (Some n, Some description) \<Rightarrow>
                    load_inventory_tui rest (add_item items slot n description Lambda_none)
                | _ \<Rightarrow> (items, Some Untyped))))"

text \<open>
  \<^verbatim>\<open>Story.load_state\<close> of \<^verbatim>\<open>story_engine.py\<close>: the keys are read with \<^verbatim>\<open>state[key]\<close>, and
  the whole body is inside \<^verbatim>\<open>try\<close>. Each field is assigned when its statement is
  reached, so an exception leaves the fields assigned before it.
\<close>

definition load_state_tui :: "story_tui \<Rightarrow> string \<Rightarrow> fs \<Rightarrow> fault + story_tui" where
  "load_state_tui s filename files =
     (case read_json files filename of
        Inl e \<Rightarrow> report s e
      | Inr state \<Rightarrow>
     (case py_getitem state ''hp'' of
        Inl e \<Rightarrow> report s e
      | Inr h \<Rightarrow>
     (case as_int h of
        None \<Rightarrow> Inl Untyped
      | Some n \<Rightarrow>
     (let s1 = s\<lparr>tui_health := HealthSystem_init n, tui_achievements := Achievements_init\<rparr>
      in case bind_r (py_getitem state ''achievements'') py_items of
        Inl e \<Rightarrow> report s1 e
      | Inr a_items \<Rightarrow>
     (case load_achievements a_items Achievements_init of
        Inl e \<Rightarrow> Inl e
      | Inr achs \<Rightarrow>
     (let s2 = s1\<lparr>tui_achievements := achs, tui_inventory := Inventory_init\<rparr>
      in case bind_r (py_getitem state ''inventory'') py_items of
        Inl e \<Rightarrow> report s2 e
      | Inr i_items \<Rightarrow>
     (case load_inventory_tui i_items Inventory_init of
        (its, Some e) \<Rightarrow> report (s2\<lparr>tui_inventory := its\<rparr>) e
      | (its, None) \<Rightarrow> Inr (s2\<lparr>tui_inventory := its\<rparr>))))))))"

subsection \<open>Example scenarios\<close>

text \<open>
  The database of the specification's scenario, with an entry function on the first
  node, and a story standing at \<^verbatim>\<open>["start"]\<close>.
\<close>

definition forest_db :: "callback option \<Rightarrow> pyval" where
  "forest_db entry = PDict
     [(''start'', PDict
        ((case entry of None \<Rightarrow> [] | Some f \<Rightarrow> [(''function'', PFun f)]) @
         [(''condition'', PStr ''Forest''),
          (''answers'', PDict [(''go north'', PDict [(''next_path'', PList [PStr ''cave''])])])])),
      (''cave'', PDict [(''condition'', PStr ''Dark cave'')])]"

definition forest_story :: "callback option \<Rightarrow> string list \<Rightarrow> story" where
  "forest_story entry p = jump_to (Story_init (forest_db entry) None) p"

text \<open>What a caller of \<^verbatim>\<open>step\<close> sees: the result, and the path cursor afterwards.\<close>

definition step_view :: "env \<Rightarrow> story \<Rightarrow> string option \<Rightarrow> fault + (pyval \<times> string list)" where
  "step_view env s answer =
     (case step env s answer of Inl e \<Rightarrow> Inl e | Inr (r, s1) \<Rightarrow> Inr (r, path s1))"

text \<open>
  Three environments: \<^verbatim>\<open>lambda s: s.jump_to(["cave"])\<close>; a trap,
  \<^verbatim>\<open>s.modify_hp(-3)\<close> followed by \<^verbatim>\<open>s.jump_to(["cave"])\<close>; and \<^verbatim>\<open>lambda s: s.modify_hp(-3)\<close>.
\<close>

definition teleport_env :: env where
  "teleport_env n s = Inr (jump_to s [''cave''])"

definition trap_env :: env where
  "trap_env n s = Inr (jump_to (Story_modify_hp s (- 3)) [''cave''])"

definition hurt_env :: env where
  "hurt_env n s = Inr (Story_modify_hp s (- 3))"

text \<open>An empty story, and a puzzle whose first option is the right one.\<close>

definition empty_story :: story where
  "empty_story = Story_init (PDict []) None"



text \<open>
  Notions for the contract of a tick: the effect after one decrement; an effect that
  the tick expires; the callbacks the tick calls for a registry, in its order.
\<close>

definition aged :: "Effect \<Rightarrow> Effect" where
  "aged e = e\<lparr>duration := duration e - 1\<rparr>"









text \<open>
  A story with some state of every saved kind, a file system with no resource, and a
  save followed by a load into a story.
\<close>

definition hero :: story where
  "hero =
     Story_add_achievement
       (set_flag
          (Story_add_item
             (Story_add_item (Story_modify_hp (jump_to empty_story [''start'', ''cave'']) (- 3))
                ''Head'' ''Helmet'' ''Iron'' (Named ''equip''))
             ''Tail'' ''Ribbon'' ''Red'' (Named ''wag''))
          ''torch'' True)
       ''First Steps'' ''Left the village''"

definition no_files :: fs where
  "no_files = (\<lambda>filename. None)"

definition save_then_load :: "story \<Rightarrow> story \<Rightarrow> string \<Rightarrow> fs \<Rightarrow> fault + story" where
  "save_then_load s s0 filename files =
     bind_r (save_state s filename files) (load_state s0 filename)"

text \<open>The saved part of a story, as its query functions give it, and the inventory.\<close>

definition saved_view :: "fault + story
    \<Rightarrow> fault + (int \<times> Achievements \<times> (string \<times> bool) list \<times> string list
                \<times> (string \<times> string \<times> string) list \<times> callback Inventory)" where
  "saved_view r =
     (case r of
        Inl e \<Rightarrow> Inl e
      | Inr s \<Rightarrow> Inr (Story_get_hp s, Story_get_achievements s, flags s, path s,
                      Story_get_items s, get_items (inventory s)))"

text \<open>The item as \<^verbatim>\<open>load_state\<close> adds it again: its callback is \<^verbatim>\<open>lambda s: None\<close>.\<close>

fun inert :: "callback slot \<Rightarrow> callback slot" where
  "inert Empty = Empty"
| "inert (Item item description function) = Item item description Lambda_noop"

text \<open>
  An NPC whose answer \<^verbatim>\<open>"bribe"\<close> leads to a node that the dialogue tree does not have.
\<close>

definition guard :: NPC where
  "guard = NPC_init ''Guard'' (PDict
     [(''text'', PStr ''Halt!''),
      (''responses'', PDict
         [(''bribe'', PDict [(''next'', PList [PStr ''bribed''])]),
          (''leave'', PDict [(''next'', PList [])])])])"

text \<open>What a caller of \<^verbatim>\<open>talk\<close> sees: the result, and the cursor of the NPC afterwards.\<close>

definition talk_view :: "NPC \<Rightarrow> story \<Rightarrow> string option \<Rightarrow> fault + (pyval \<times> string list)" where
  "talk_view npc s choice =
     (case talk npc s choice of Inl e \<Rightarrow> Inl e | Inr (r, npc1, s1) \<Rightarrow> Inr (r, dialogue_path npc1))"

text \<open>A story of the terminal variant, as it is constructed.\<close>

definition empty_story_tui :: story_tui where
  "empty_story_tui =
     \<lparr>tui_inventory = Inventory_init, tui_achievements = Achievements_init,
      tui_health = HealthSystem_init 10, tui_messages = []\<rparr>"

section \<open>Properties of the hit-point counter\<close>

lemma modify_hp_tui_eq: "modify_hp_tui h amount = modify_hp h amount"
  by (simp add: modify_hp_tui_def modify_hp_def Let_def max_def)

lemma get_hp_modify_hp: "get_hp (modify_hp h d) = max 0 (get_hp h + d)"
  by (simp add: get_hp_def modify_hp_def)

lemma modify_hp_seq_nonneg:
  "ds \<noteq> [] \<or> 0 \<le> get_hp h \<Longrightarrow> 0 \<le> get_hp (modify_hp_seq h ds)"
proof (induction ds arbitrary: h)
  case Nil
  then show ?case by simp
next
  case (Cons d ds)
  have "0 \<le> get_hp (modify_hp h d)"
    by (simp add: get_hp_modify_hp)
  then show ?case
    using Cons.IH [of "modify_hp h d"] by simp
qed

lemma modify_hp_seq_lower:
  "get_hp h + sum_list ds \<le> get_hp (modify_hp_seq h ds)"
proof (induction ds arbitrary: h)
  case Nil
  then show ?case by simp
next
  case (Cons d ds)
  have "get_hp h + d \<le> get_hp (modify_hp h d)"
    by (simp add: get_hp_modify_hp)
  with Cons.IH [of "modify_hp h d"] show ?case by simp
qed

lemma modify_hp_seq_exact:
  "(\<forall>k \<le> length ds. 0 \<le> get_hp h + sum_list (take k ds))
     \<Longrightarrow> get_hp (modify_hp_seq h ds) = get_hp h + sum_list ds"
proof (induction ds arbitrary: h)
  case Nil
  then show ?case by simp
next
  case (Cons d ds)
  from Cons.prems have first: "0 \<le> get_hp h + d"
    by (auto dest: spec [of _ "Suc 0"])
  then have now: "get_hp (modify_hp h d) = get_hp h + d"
    by (simp add: get_hp_modify_hp)
  have "\<forall>k \<le> length ds. 0 \<le> get_hp (modify_hp h d) + sum_list (take k ds)"
  proof (intro allI impI)
    fix k assume "k \<le> length ds"
    with Cons.prems have "0 \<le> get_hp h + sum_list (take (Suc k) (d # ds))"
      by (auto dest: spec [of _ "Suc k"])
    then show "0 \<le> get_hp (modify_hp h d) + sum_list (take k ds)"
      by (simp add: now)
  qed
  from Cons.IH [OF this] show ?case
    by (simp add: now)
qed

text \<open>
  C4, as the code has it. Every call sets the counter to \<open>max 0 (hp + d)\<close>: the clamp
  is applied after each single call, not once to the total. Hence, for a sequence of
  calls from a known initial value: the counter is never negative after a call (that
  is, after every non-empty prefix of the sequence); the result is at least
  \<open>max 0 (initial + sum of the d)\<close>; and it is equal to it whenever no running total
  \<open>initial + d1 + ... + dk\<close> is negative. The two variants of \<^verbatim>\<open>modify_hp\<close> agree.
\<close>

theorem modify_hp_sequence:
  "(\<forall>k. 0 < k \<and> k \<le> length ds \<longrightarrow> 0 \<le> get_hp (modify_hp_seq h (take k ds)))
   \<and> (ds \<noteq> [] \<longrightarrow> max 0 (get_hp h + sum_list ds) \<le> get_hp (modify_hp_seq h ds))
   \<and> ((\<forall>k \<le> length ds. 0 \<le> get_hp h + sum_list (take k ds))
        \<longrightarrow> get_hp (modify_hp_seq h ds) = max 0 (get_hp h + sum_list ds))
   \<and> get_hp (modify_hp h d) = max 0 (get_hp h + d)
   \<and> modify_hp_tui h d = modify_hp h d"
proof (intro conjI allI impI)
  fix k assume "0 < k \<and> k \<le> length ds"
  then have "take k ds \<noteq> []" by auto
  then show "0 \<le> get_hp (modify_hp_seq h (take k ds))"
    by (simp add: modify_hp_seq_nonneg)
next
  assume "ds \<noteq> []"
  then have "0 \<le> get_hp (modify_hp_seq h ds)"
    by (simp add: modify_hp_seq_nonneg)
  with modify_hp_seq_lower [of h ds]
  show "max 0 (get_hp h + sum_list ds) \<le> get_hp (modify_hp_seq h ds)"
    by simp
next
  assume run: "\<forall>k \<le> length ds. 0 \<le> get_hp h + sum_list (take k ds)"
  then have "0 \<le> get_hp h + sum_list ds"
    by (auto dest: spec [of _ "length ds"])
  with modify_hp_seq_exact [OF run]
  show "get_hp (modify_hp_seq h ds) = max 0 (get_hp h + sum_list ds)"
    by simp
next
  show "get_hp (modify_hp h d) = max 0 (get_hp h + d)"
    by (rule get_hp_modify_hp)
next
  show "modify_hp_tui h d = modify_hp h d"
    by (rule modify_hp_tui_eq)
qed

text \<open>
  The theorem at the initial value 10 and the calls \<open>-3, 5, -4\<close>: the running totals
  are 7, 12 and 8, and the result is 8.
\<close>

theorem modify_hp_sequence_witness:
  "0 \<le> get_hp (HealthSystem_init 10) + sum_list (take 1 [- 3, 5, - 4])
   \<and> 0 \<le> get_hp (HealthSystem_init 10) + sum_list (take 2 [- 3, 5, - 4])
   \<and> 0 \<le> get_hp (HealthSystem_init 10) + sum_list (take 3 [- 3, 5, - 4])
   \<and> get_hp (modify_hp_seq (HealthSystem_init 10) [- 3, 5, - 4]) = 8
   \<and> 0 \<le> get_hp (modify_hp_seq (HealthSystem_init 10) (take 1 [- 3, 5, - 4]))"
proof -
  have run: "\<forall>k \<le> length [- 3, 5, - 4 :: int].
      0 \<le> get_hp (HealthSystem_init 10) + sum_list (take k [- 3, 5, - 4])"
  proof (intro allI impI)
    fix k :: nat assume "k \<le> length [- 3, 5, - 4 :: int]"
    then have "k = 0 \<or> k = 1 \<or> k = 2 \<or> k = 3" by auto
    then show "0 \<le> get_hp (HealthSystem_init 10) + sum_list (take k [- 3, 5, - 4])"
      by (auto simp: get_hp_def HealthSystem_init_def numeral_2_eq_2 numeral_3_eq_3)
  qed
  from modify_hp_sequence [of "[- 3, 5, - 4]" "HealthSystem_init 10" 0] run
  have "get_hp (modify_hp_seq (HealthSystem_init 10) [- 3, 5, - 4])
          = max 0 (get_hp (HealthSystem_init 10) + sum_list [- 3, 5, - 4])"
    and "0 < (1::nat) \<and> (1::nat) \<le> length [- 3, 5, - 4 :: int]
          \<longrightarrow> 0 \<le> get_hp (modify_hp_seq (HealthSystem_init 10) (take 1 [- 3, 5, - 4]))"
    by blast+
  then show ?thesis
    by (simp add: get_hp_def HealthSystem_init_def)
qed

text \<open>
  The claim as stated fails from the initial value 10 with the calls \<open>-20, 5\<close>: the
  counter is clamped to 0 after the first call and ends at 5, which is neither
  \<open>max 0\<close> of the sum of the calls nor \<open>max 0\<close> of the initial value plus that sum.
\<close>

theorem modify_hp_sum_counterexample:
  "get_hp (modify_hp_seq (HealthSystem_init 10) [- 20, 5]) = 5
   \<and> max 0 (sum_list [- 20, 5 :: int]) = 0
   \<and> max 0 (10 + sum_list [- 20, 5 :: int]) = 0"
  by (simp add: get_hp_def HealthSystem_init_def modify_hp_def)

section \<open>Properties of the inventory\<close>

lemma inventory_step_keys:
  "fst ` set (inventory_step items x) = insert (op_slot x) (fst ` set items)"
  by (cases x) (simp_all add: add_item_def remove_item_def dom_update)

lemma inventory_run_keys:
  "fst ` set (inventory_run items ops) = fst ` set items \<union> op_slot ` set ops"
  unfolding inventory_run_def
  by (induction ops arbitrary: items) (auto simp: inventory_step_keys)

lemma inventory_step_key_list:
  "op_slot x \<in> fst ` set items \<Longrightarrow> map fst (inventory_step items x) = map fst items"
  by (cases x) (simp_all add: add_item_def remove_item_def update_keys)

lemma inventory_run_key_list:
  "op_slot ` set ops \<subseteq> fst ` set items
     \<Longrightarrow> map fst (inventory_run items ops) = map fst items"
  unfolding inventory_run_def
proof (induction ops arbitrary: items)
  case Nil
  then show ?case by simp
next
  case (Cons x ops)
  have same: "map fst (inventory_step items x) = map fst items"
    using Cons.prems by (simp add: inventory_step_key_list)
  then have "fst ` set (inventory_step items x) = fst ` set items"
    by (metis list.set_map)
  with Cons.prems Cons.IH [of "inventory_step items x"] same show ?case
    by simp
qed

lemma Inventory_init_keys: "map fst Inventory_init = slot_names"
  by (simp add: Inventory_init_def comp_def)

text \<open>
  C9, as the code has it. After any sequence of \<^verbatim>\<open>add_item\<close> and \<^verbatim>\<open>remove_item\<close> on a new
  inventory, the set of slot keys is the eleven fixed names together with every slot
  name that an operation of the sequence was called with: no key is ever removed, and
  an operation on a name outside the eleven adds that name as a key. When every
  operation names one of the eleven slots, the keys are exactly the eleven names, in
  their order. Both variants of \<^verbatim>\<open>Inventory\<close> have these operations.
\<close>

theorem inventory_keys:
  "fst ` set (inventory_run Inventory_init ops) = set slot_names \<union> op_slot ` set ops
   \<and> (op_slot ` set ops \<subseteq> set slot_names
        \<longrightarrow> map fst (inventory_run Inventory_init ops) = slot_names)"
proof -
  have k: "fst ` set Inventory_init = set slot_names"
    by (metis Inventory_init_keys list.set_map)
  show ?thesis
    using inventory_run_keys [of Inventory_init ops]
      inventory_run_key_list [of ops Inventory_init]
    by (simp add: k Inventory_init_keys)
qed

text \<open>Equip a helmet, take it off, put on a cloak: the keys are the eleven names.\<close>

theorem inventory_keys_witness:
  "map fst (inventory_run Inventory_init
      [Add_item ''Head'' ''Helmet'' ''Iron'' (Named ''equip''), Remove_item ''Head'',
       Add_item ''Back'' ''Cloak'' ''Wool'' Lambda_noop]) = slot_names"
  using inventory_keys [of "[Add_item ''Head'' ''Helmet'' ''Iron'' (Named ''equip''),
       Remove_item ''Head'', Add_item ''Back'' ''Cloak'' ''Wool'' Lambda_noop]"]
  by (simp add: slot_names_def)

text \<open>
  The claim as stated fails: \<^verbatim>\<open>add_item("Tail", ...)\<close> on a new inventory adds a twelfth
  key, and so does \<^verbatim>\<open>remove_item("Wings")\<close>.
\<close>

theorem inventory_keys_counterexample:
  "map fst (inventory_run Inventory_init [Add_item ''Tail'' ''Ribbon'' ''Red'' Lambda_noop])
     = slot_names @ [''Tail'']
   \<and> map fst (inventory_run Inventory_init [Remove_item ''Wings'']) = slot_names @ [''Wings'']"
  by (simp add: inventory_run_def add_item_def remove_item_def Inventory_init_def slot_names_def)

section \<open>Properties of \<open>step\<close>\<close>

lemma Story_get_node_frame:
  assumes "Story_get_node s = Inr (node, s1)"
  shows "path s1 = path s \<and> invoked s1 = invoked s"
  using assms by (auto simp: Story_get_node_def split: sum.splits if_splits)

lemma run_function_no_function:
  "map_of kvs ''function'' = None \<Longrightarrow> run_function env (PDict kvs) s = Inr s"
  by (simp add: run_function_def bind_r_def map_of_eq_None_iff)

lemma run_function_function:
  assumes "map_of kvs ''function'' = Some (PFun f)"
  shows "run_function env (PDict kvs) s = invoke env f s"
proof -
  have "''function'' \<in> fst ` set kvs"
    using assms by (metis map_of_eq_None_iff option.distinct(1))
  with assms show ?thesis
    by (simp add: run_function_def bind_r_def)
qed



text \<open>
  C1, as the code has it. Let the current path resolve to a dictionary (the empty one
  when a segment is absent) whose \<^verbatim>\<open>answers\<close>, missing or a dictionary, do not have the
  answer as a key. \<^verbatim>\<open>step\<close> calls the node's entry function before it looks at the
  answer. Provided that call, if there is one, returns and leaves the path cursor as
  it found it, \<^verbatim>\<open>step(answer)\<close> returns a result \<^verbatim>\<open>{"error": ...}\<close> and the path cursor
  is unchanged.
\<close>

theorem step_invalid_choice:
  assumes "Story_get_node s = Inr (PDict kvs, s1)"
    and "py_get (PDict kvs) ''answers'' (PDict []) = Inr (PDict as)"
    and "a \<notin> fst ` set as"
    and "run_function env (PDict kvs) s1 = Inr s2"
    and "path s2 = path s1"
  shows "step env s (Some a) =
           Inr (error_result (if kvs = [] then bad_path_msg else bad_choice_msg),
                if kvs = [] then s1 else s2)
         \<and> path (if kvs = [] then s1 else s2) = path s"
proof -
  have p1: "path s1 = path s"
    using assms(1) by (simp add: Story_get_node_frame)
  show ?thesis
  proof (cases "kvs = []")
    case True
    with assms(1) p1 show ?thesis
      by (simp add: step_def bind_r_def)
  next
    case False
    with assms p1 show ?thesis
      by (simp add: step_def bind_r_def)
  qed
qed

text \<open>
  With an entry function that only takes three hit points, and with no entry function:
  \<^verbatim>\<open>step("go south")\<close> at \<^verbatim>\<open>["start"]\<close> returns the error and stays at \<^verbatim>\<open>["start"]\<close>.
\<close>

theorem step_invalid_choice_witness:
  "step_view hurt_env (forest_story (Some (Named ''hurt'')) [''start'']) (Some ''go south'')
     = Inr (error_result bad_choice_msg, [''start''])
   \<and> step_view hurt_env (forest_story None [''start'']) (Some ''go south'')
     = Inr (error_result bad_choice_msg, [''start''])"
proof -
  let ?ans = "[(''go north'', PDict [(''next_path'', PList [PStr ''cave''])])]"
  let ?bare = "[(''condition'', PStr ''Forest''), (''answers'', PDict ?ans)]"
  let ?kvs = "(''function'', PFun (Named ''hurt'')) # ?bare"
  let ?s = "forest_story (Some (Named ''hurt'')) [''start'']"
  let ?x = "?s\<lparr>story_map := [([''start''], PDict ?kvs)]\<rparr>"
  let ?y = "(Story_modify_hp ?x (- 3))\<lparr>invoked := [Named ''hurt'']\<rparr>"
  let ?t = "forest_story None [''start'']"
  let ?u = "?t\<lparr>story_map := [([''start''], PDict ?bare)]\<rparr>"
  have g: "Story_get_node ?s = Inr (PDict ?kvs, ?x)"
    by (simp add: Story_get_node_def forest_story_def forest_db_def jump_to_def Story_init_def)
  have a: "py_get (PDict ?kvs) ''answers'' (PDict []) = Inr (PDict ?ans)"
    by simp
  have n: "''go south'' \<notin> fst ` set ?ans"
    by simp
  have r: "run_function hurt_env (PDict ?kvs) ?x = Inr ?y"
    by (simp add: run_function_def bind_r_def invoke_def call_def hurt_env_def
        forest_story_def jump_to_def Story_init_def)
  have p: "path ?y = path ?x"
    by (simp add: Story_modify_hp_def)
  have g0: "Story_get_node ?t = Inr (PDict ?bare, ?u)"
    by (simp add: Story_get_node_def forest_story_def forest_db_def jump_to_def Story_init_def)
  have a0: "py_get (PDict ?bare) ''answers'' (PDict []) = Inr (PDict ?ans)"
    by simp
  have r0: "run_function hurt_env (PDict ?bare) ?u = Inr ?u"
    by (simp add: run_function_def bind_r_def)
  from step_invalid_choice [OF g a n r p] step_invalid_choice [OF g0 a0 n r0 refl]
  show ?thesis
    by (simp add: step_view_def forest_story_def jump_to_def Story_modify_hp_def)
qed

text \<open>
  The claim as stated fails for a database whose node has the entry function
  \<^verbatim>\<open>lambda s: s.jump_to(["cave"])\<close>: \<^verbatim>\<open>step("go south")\<close> at \<^verbatim>\<open>["start"]\<close> returns the
  error, and the path cursor is \<^verbatim>\<open>["cave"]\<close>.
\<close>

theorem step_invalid_choice_counterexample:
  "step_view teleport_env (forest_story (Some (Named ''teleport'')) [''start''])
       (Some ''go south'') = Inr (error_result bad_choice_msg, [''cave''])
   \<and> path (forest_story (Some (Named ''teleport'')) [''start'']) = [''start'']"
  by (simp add: step_view_def step_def Story_get_node_def bind_r_def forest_story_def forest_db_def
      jump_to_def Story_init_def run_function_def invoke_def call_def teleport_env_def)

text \<open>
  C10, as the code has it. When \<^verbatim>\<open>step(answer)\<close> is called at a node that has an entry
  function and whose answers do not have the answer, the entry function has been
  called, once, before the error is returned, and the story left behind is the story
  that call returned (with the call noted in the history): every effect of the entry
  function is kept on the error path, a move of the path cursor included. \<^verbatim>\<open>step\<close>
  itself assigns nothing on that path but the registration in the story map.
\<close>

theorem step_invalid_choice_effects:
  assumes "Story_get_node s = Inr (PDict kvs, s1)"
    and "map_of kvs ''function'' = Some (PFun f)"
    and "call env f s1 = Inr s2"
    and "py_get (PDict kvs) ''answers'' (PDict []) = Inr (PDict as)"
    and "a \<notin> fst ` set as"
  shows "step env s (Some a) = Inr (error_result bad_choice_msg, s2\<lparr>invoked := invoked s @ [f]\<rparr>)"
proof -
  have "kvs \<noteq> []" using assms(2) by auto
  moreover have "invoked s1 = invoked s"
    using assms(1) by (simp add: Story_get_node_frame)
  moreover have "run_function env (PDict kvs) s1 = invoke env f s1"
    using assms(2) by (rule run_function_function)
  ultimately show ?thesis
    using assms by (simp add: step_def bind_r_def invoke_def)
qed

text \<open>
  An entry function that takes three hit points: after \<^verbatim>\<open>step("go south")\<close> the error is
  returned and the story has 7 hit points.
\<close>

theorem step_invalid_choice_effects_witness:
  "step hurt_env (forest_story (Some (Named ''hurt'')) [''start'']) (Some ''go south'')
     = Inr (error_result bad_choice_msg,
         (Story_modify_hp
            ((forest_story (Some (Named ''hurt'')) [''start''])
               \<lparr>story_map := [([''start''],
                   PDict [(''function'', PFun (Named ''hurt'')), (''condition'', PStr ''Forest''),
                     (''answers'', PDict [(''go north'', PDict [(''next_path'', PList [PStr ''cave''])])])])]\<rparr>)
            (- 3))
           \<lparr>invoked := [Named ''hurt'']\<rparr>)
   \<and> Story_get_hp (forest_story (Some (Named ''hurt'')) [''start'']) = 10
   \<and> Story_get_hp (Story_modify_hp (forest_story (Some (Named ''hurt'')) [''start'']) (- 3)) = 7"
proof -
  let ?ans = "[(''go north'', PDict [(''next_path'', PList [PStr ''cave''])])]"
  let ?kvs = "[(''function'', PFun (Named ''hurt'')), (''condition'', PStr ''Forest''),
                (''answers'', PDict ?ans)]"
  let ?s = "forest_story (Some (Named ''hurt'')) [''start'']"
  let ?x = "?s\<lparr>story_map := [([''start''], PDict ?kvs)]\<rparr>"
  have g: "Story_get_node ?s = Inr (PDict ?kvs, ?x)"
    by (simp add: Story_get_node_def forest_story_def forest_db_def jump_to_def Story_init_def)
  have f: "map_of ?kvs ''function'' = Some (PFun (Named ''hurt''))"
    by simp
  have c: "call hurt_env (Named ''hurt'') ?x = Inr (Story_modify_hp ?x (- 3))"
    by (simp add: call_def hurt_env_def)
  have a: "py_get (PDict ?kvs) ''answers'' (PDict []) = Inr (PDict ?ans)"
    by simp
  have n: "''go south'' \<notin> fst ` set ?ans"
    by simp
  from step_invalid_choice_effects [OF g f c a n]
  show ?thesis
    by (simp add: forest_story_def jump_to_def Story_init_def Story_modify_hp_def
        Story_get_hp_def get_hp_def modify_hp_def HealthSystem_init_def)
qed

text \<open>
  The claim as stated fails for the entry function \<^verbatim>\<open>s.modify_hp(-3); s.jump_to(["cave"])\<close>:
  the error is returned and the path cursor has moved from \<^verbatim>\<open>["start"]\<close> to \<^verbatim>\<open>["cave"]\<close>.
\<close>

theorem step_invalid_choice_effects_counterexample:
  "step_view trap_env (forest_story (Some (Named ''trap'')) [''start''])
       (Some ''go south'') = Inr (error_result bad_choice_msg, [''cave''])
   \<and> path (forest_story (Some (Named ''trap'')) [''start'']) = [''start'']"
  by (simp add: step_view_def step_def Story_get_node_def bind_r_def forest_story_def forest_db_def
      jump_to_def Story_init_def run_function_def invoke_def call_def trap_env_def
      Story_modify_hp_def)

section \<open>Properties of the puzzle\<close>









section \<open>Properties of the effects\<close>




lemma duration_aged: "duration (aged e) = duration e - 1"
  by (simp add: aged_def)

lemma expire_aged: "expire (aged e) = expire e"
  by (simp add: aged_def)








section \<open>Properties of saving and loading\<close>

lemma update_fresh: "k \<notin> fst ` set al \<Longrightarrow> AList.update k v al = al @ [(k, v)]"
  by (induction al) auto

lemma load_achievements_saved:
  "distinct (map fst (acc @ xs))
     \<Longrightarrow> load_achievements (map (\<lambda>(k, v). (k, PStr v)) xs) acc = Inr (acc @ xs)"
proof (induction xs arbitrary: acc)
  case Nil
  then show ?case by simp
next
  case (Cons x xs)
  obtain k v where x: "x = (k, v)" by (cases x)
  from Cons.prems x have fresh: "k \<notin> fst ` set acc" by auto
  from Cons.prems x have "distinct (map fst ((acc @ [(k, v)]) @ xs))" by simp
  from Cons.IH [OF this] fresh x show ?case
    by (simp add: add_achievement_def update_fresh)
qed

lemma as_bool_dict_saved: "as_bool_dict (PDict (map (\<lambda>(k, b). (k, PBool b)) fl)) = Some fl"
proof -
  have "all_some (map (\<lambda>(k, v). as_bool v) (map (\<lambda>(k, b). (k, PBool b)) fl)) = Some (map snd fl)"
    by (induction fl) auto
  moreover have "map fst (map (\<lambda>(k, b). (k, PBool b)) fl) = map fst fl"
    by (induction fl) auto
  ultimately show ?thesis
    by (simp only: as_bool_dict.simps option.case zip_map_fst_snd)
qed

lemma as_str_list_saved: "as_str_list (PList (map PStr p)) = Some p"
proof -
  have "all_some (map as_str (map PStr p)) = Some p"
    by (induction p) auto
  then show ?thesis by simp
qed

lemma take_2_slot_list:
  "take 2 (slot_list data) = (case data of Empty \<Rightarrow> [] | Item n d f \<Rightarrow> [PStr n, PStr d])"
  by (cases data) (simp_all add: numeral_2_eq_2)

lemma json_ok_saved_state: "json_ok (saved_state s)"
  by (auto simp: saved_state_def take_2_slot_list split: slot.splits)

lemma save_state_read:
  assumes "save_state s f files = Inr files'"
  shows "read_json files' f = Inr (saved_state s)"
  using assms by (auto simp: save_state_def read_json_def json_ok_saved_state split: if_splits)

lemma map_of_get_items:
  "distinct (map fst its) \<Longrightarrow>
     map_of (get_items its) k = (case map_of its k of Some (Item n d f) \<Rightarrow> Some (Item n d f) | _ \<Rightarrow> None)"
proof (induction its)
  case Nil
  then show ?case by (simp add: get_items_def)
next
  case (Cons x its)
  obtain k0 d0 where x: "x = (k0, d0)" by (cases x)
  from Cons.prems x have "k0 \<notin> fst ` set its" by auto
  then have none: "map_of its k0 = None" by (simp add: map_of_eq_None_iff)
  from Cons x none show ?case
    by (cases d0) (auto simp: get_items_def)
qed

lemma map_of_slot_info:
  "distinct (map fst its) \<Longrightarrow>
     map_of (concat (map slot_info its)) k
       = (case map_of its k of Some (Item n d f) \<Rightarrow> Some (n, d) | _ \<Rightarrow> None)"
proof (induction its)
  case Nil
  then show ?case by simp
next
  case (Cons x its)
  obtain k0 d0 where x: "x = (k0, d0)" by (cases x)
  from Cons.prems x have "k0 \<notin> fst ` set its" by auto
  then have none: "map_of its k0 = None" by (simp add: map_of_eq_None_iff)
  from Cons x none show ?case
    by (cases d0) auto
qed

lemma distinct_get_items: "distinct (map fst its) \<Longrightarrow> distinct (map fst (get_items its))"
  by (simp add: get_items_def distinct_map_filter)

lemma map_of_Story_get_items:
  assumes "distinct (map fst (inventory s))"
  shows "map_of (Story_get_items s) k
       = (case map_of (inventory s) k of Some (Item n d f) \<Rightarrow> Some (n, d) | _ \<Rightarrow> None)"
  using assms
  by (simp add: Story_get_items_def map_of_slot_info distinct_get_items map_of_get_items
      split: option.splits slot.splits)

lemma load_inventory_saved:
  assumes "\<forall>x \<in> set xs. snd x \<noteq> Empty" and "distinct (map fst xs)"
  shows "\<exists>its. load_inventory (map (\<lambda>(slot, data). (slot, PList (take 2 (slot_list data)))) xs) acc
               = Inr its
           \<and> (\<forall>k. map_of its k = (case map_of xs k of Some d \<Rightarrow> Some (inert d) | None \<Rightarrow> map_of acc k))
           \<and> (distinct (map fst acc) \<longrightarrow> distinct (map fst its))"
  using assms
proof (induction xs arbitrary: acc)
  case Nil
  then show ?case by simp
next
  case (Cons x xs)
  obtain k0 d0 where x: "x = (k0, d0)" by (cases x)
  from Cons.prems x obtain n d f where d0: "d0 = Item n d f" by (cases d0) auto
  let ?acc = "add_item acc k0 n d Lambda_noop"
  from Cons.prems x have fresh: "k0 \<notin> fst ` set xs" and rest: "\<forall>x \<in> set xs. snd x \<noteq> Empty"
    "distinct (map fst xs)" by auto
  from fresh have none: "map_of xs k0 = None" by (simp add: map_of_eq_None_iff)
  from Cons.IH [OF rest, of ?acc] obtain its
    where its: "load_inventory (map (\<lambda>(slot, data). (slot, PList (take 2 (slot_list data)))) xs) ?acc
                  = Inr its"
      "\<forall>k. map_of its k = (case map_of xs k of Some d \<Rightarrow> Some (inert d) | None \<Rightarrow> map_of ?acc k)"
      "distinct (map fst ?acc) \<longrightarrow> distinct (map fst its)"
    by blast
  have run: "load_inventory (map (\<lambda>(slot, data). (slot, PList (take 2 (slot_list data)))) (x # xs)) acc
               = Inr its"
    using its(1) by (simp add: x d0 bind_r_def take_2_slot_list)
  have look: "\<forall>k. map_of its k =
      (case map_of (x # xs) k of Some d \<Rightarrow> Some (inert d) | None \<Rightarrow> map_of acc k)"
    using its(2) none by (auto simp: x d0 add_item_def update_conv' split: option.splits)
  have "distinct (map fst acc) \<longrightarrow> distinct (map fst its)"
    using its(3) by (simp add: add_item_def distinct_update)
  with run look show ?case by blast
qed


lemma get_items_all_items: "\<forall>x \<in> set (get_items its). snd x \<noteq> Empty"
  by (auto simp: get_items_def)

lemma map_of_Inventory_init:
  "map_of (Inventory_init :: 'f Inventory) k = None
   \<or> map_of (Inventory_init :: 'f Inventory) k = Some Empty"
proof (cases "map_of (Inventory_init :: 'f Inventory) k")
  case None
  then show ?thesis by simp
next
  case (Some d)
  then have "(k, d) \<in> set (Inventory_init :: 'f Inventory)" by (rule map_of_SomeD)
  then have "d = Empty" by (auto simp: Inventory_init_def)
  with Some show ?thesis by simp
qed

lemma Inventory_init_no_item: "map_of Inventory_init k \<noteq> Some (Item n d f)"
  using map_of_Inventory_init [where 'f = 'a and k = k] by auto

lemma distinct_Inventory_init: "distinct (map fst Inventory_init)"
  by (simp add: Inventory_init_def comp_def slot_names_def)

text \<open>
  C3. In a story whose achievements and inventory are Python dictionaries (every key
  once), let \<^verbatim>\<open>save_state\<close> to a resource succeed. Then \<^verbatim>\<open>load_state\<close> from that resource,
  into any story, returns, and the story it leaves has the hit points, the achievements,
  the flags and the path cursor of the saved story, its \<^verbatim>\<open>get_items()\<close> maps the same
  slots to the same name and description, and the callback of every item of its
  inventory is \<^verbatim>\<open>lambda s: None\<close>.
\<close>

theorem save_load_round_trip:
  assumes "distinct (map fst (achievements s))"
    and "distinct (map fst (inventory s))"
    and "save_state s filename files = Inr files'"
  shows "\<exists>s'. load_state s0 filename files' = Inr s'
           \<and> Story_get_hp s' = Story_get_hp s
           \<and> achievements s' = achievements s
           \<and> flags s' = flags s
           \<and> path s' = path s
           \<and> map_of (Story_get_items s') = map_of (Story_get_items s)
           \<and> (\<forall>slot item description function.
                 map_of (inventory s') slot = Some (Item item description function)
                   \<longrightarrow> function = Lambda_noop)"
proof -
  let ?occ = "get_items (inventory s)"
  have rd: "read_json files' filename = Inr (saved_state s)"
    using assms(3) by (rule save_state_read)
  have ach: "load_achievements (map (\<lambda>(k, v). (k, PStr v)) (get_achievements (achievements s)))
               Achievements_init = Inr (achievements s)"
    using load_achievements_saved [of "[]" "achievements s"] assms(1)
    by (simp add: get_achievements_def Achievements_init_def)
  from load_inventory_saved [OF get_items_all_items distinct_get_items [OF assms(2)], of Inventory_init]
  obtain its where its:
    "load_inventory (map (\<lambda>(slot, data). (slot, PList (take 2 (slot_list data)))) ?occ) Inventory_init
       = Inr its"
    "\<forall>k. map_of its k = (case map_of ?occ k of Some d \<Rightarrow> Some (inert d) | None \<Rightarrow> map_of Inventory_init k)"
    "distinct (map fst its)"
    using distinct_Inventory_init by blast
  let ?s' = "s0\<lparr>health := HealthSystem_init (get_hp (health s)), achievements := achievements s,
                inventory := its, flags := flags s, path := path s\<rparr>"
  have run: "load_state s0 filename files' = Inr ?s'"
    using rd ach its(1)
    by (simp add: load_state_def bind_r_def saved_state_def as_bool_dict_saved as_str_list_saved
        del: as_bool_dict.simps as_str_list.simps)
  have look: "map_of its k =
      (case map_of (inventory s) k of
         Some (Item n d f) \<Rightarrow> Some (Item n d Lambda_noop)
       | _ \<Rightarrow> map_of Inventory_init k)" for k
    using its(2) by (simp add: map_of_get_items [OF assms(2)] split: option.splits slot.splits)
  have items: "map_of (Story_get_items ?s') = map_of (Story_get_items s)"
  proof
    fix k
    have "map_of (Story_get_items ?s') k
            = (case map_of its k of Some (Item n d f) \<Rightarrow> Some (n, d) | _ \<Rightarrow> None)"
      using map_of_Story_get_items [of ?s' k] its(3) by simp
    also have "\<dots> = (case map_of (inventory s) k of Some (Item n d f) \<Rightarrow> Some (n, d) | _ \<Rightarrow> None)"
      using map_of_Inventory_init [where 'f = callback, of k]
      by (auto simp: look split: option.splits slot.splits)
    also have "\<dots> = map_of (Story_get_items s) k"
      using map_of_Story_get_items [OF assms(2), of k] by simp
    finally show "map_of (Story_get_items ?s') k = map_of (Story_get_items s) k" .
  qed
  have noop: "\<forall>slot item description function.
      map_of (inventory ?s') slot = Some (Item item description function)
        \<longrightarrow> function = Lambda_noop"
    by (auto simp: look Inventory_init_no_item split: option.splits slot.splits)
  have "Story_get_hp ?s' = Story_get_hp s"
    by (simp add: Story_get_hp_def get_hp_def HealthSystem_init_def)
  with run items noop show ?thesis
    by (intro exI [of _ ?s']) simp
qed

text \<open>
  A story with 7 hit points, a helmet on the head and a ribbon in a slot of its own, a
  flag, an achievement and the path \<^verbatim>\<open>["start", "cave"]\<close>, saved and loaded into a new story.
\<close>

theorem save_load_round_trip_witness:
  "saved_view (Inr hero)
     = Inr (7, [(''First Steps'', ''Left the village'')], [(''torch'', True)], [''start'', ''cave''],
            [(''Head'', ''Helmet'', ''Iron''), (''Tail'', ''Ribbon'', ''Red'')],
            [(''Head'', Item ''Helmet'' ''Iron'' (Named ''equip'')),
             (''Tail'', Item ''Ribbon'' ''Red'' (Named ''wag''))])
   \<and> saved_view (save_then_load hero empty_story ''save.json'' no_files)
     = Inr (7, [(''First Steps'', ''Left the village'')], [(''torch'', True)], [''start'', ''cave''],
            [(''Head'', ''Helmet'', ''Iron''), (''Tail'', ''Ribbon'', ''Red'')],
            [(''Head'', Item ''Helmet'' ''Iron'' Lambda_noop),
             (''Tail'', Item ''Ribbon'' ''Red'' Lambda_noop)])"
proof -
  have a: "distinct (map fst (achievements hero))"
    by (simp add: hero_def Story_add_achievement_def add_achievement_def set_flag_def
        Story_add_item_def Story_modify_hp_def jump_to_def empty_story_def Story_init_def
        Achievements_init_def)
  have i: "distinct (map fst (inventory hero))"
    by (simp add: hero_def Story_add_achievement_def set_flag_def Story_add_item_def add_item_def
        Story_modify_hp_def jump_to_def empty_story_def Story_init_def Inventory_init_def
        slot_names_def)
  have "\<exists>files'. save_state hero ''save.json'' no_files = Inr files'"
    by (simp add: save_state_def no_files_def json_ok_saved_state)
  then obtain files' where w: "save_state hero ''save.json'' no_files = Inr files'" by blast
  from save_load_round_trip [OF a i w, of empty_story]
  have "\<exists>s'. load_state empty_story ''save.json'' files' = Inr s'" by blast
  then show ?thesis
    by (simp add: saved_view_def save_then_load_def save_state_def load_state_def read_json_def
        bind_r_def no_files_def json_ok_saved_state saved_state_def take_2_slot_list
        hero_def Story_add_achievement_def add_achievement_def set_flag_def Story_add_item_def
        add_item_def Story_modify_hp_def modify_hp_def jump_to_def empty_story_def Story_init_def
        Inventory_init_def slot_names_def Achievements_init_def HealthSystem_init_def
        Story_get_hp_def get_hp_def Story_get_achievements_def get_achievements_def
        Story_get_items_def get_items_def)
qed

section \<open>Failures of loading\<close>

text \<open>
  C7, at the failing inputs. The claim asks that a missing resource and malformed
  content be reported and never raised. \<^verbatim>\<open>load_state\<close> of \<^verbatim>\<open>core.py\<close> has no \<^verbatim>\<open>try\<close>: for a
  resource that does not exist it raises \<^verbatim>\<open>FileNotFoundError\<close>, for text that is not JSON
  \<^verbatim>\<open>JSONDecodeError\<close>, and for a document that is not a mapping \<^verbatim>\<open>AttributeError\<close>.
\<close>

theorem load_state_missing_raises:
  "load_state empty_story ''save.json'' no_files = Inl (Raised FileNotFoundError)
   \<and> load_state empty_story ''save.json'' (no_files(''save.json'' := Some Garbage))
       = Inl (Raised JSONDecodeError)
   \<and> load_state empty_story ''save.json'' (no_files(''save.json'' := Some (Document (PList []))))
       = Inl (Raised AttributeError)"
  by (simp add: load_state_def read_json_def bind_r_def no_files_def)

text \<open>
  The second half of C7 holds in \<^verbatim>\<open>core.py\<close>: when a document that is a mapping loads,
  every key it does not have takes its default, 0 for the hit points, the empty mapping
  for achievements and flags, the eleven empty slots for the inventory, and the empty
  path.
\<close>

theorem load_state_defaults:
  assumes "files filename = Some (Document (PDict kvs))"
    and "load_state s filename files = Inr s'"
  shows "(map_of kvs ''hp'' = None \<longrightarrow> Story_get_hp s' = 0)
       \<and> (map_of kvs ''achievements'' = None \<longrightarrow> achievements s' = [])
       \<and> (map_of kvs ''inventory'' = None \<longrightarrow> inventory s' = Inventory_init)
       \<and> (map_of kvs ''flags'' = None \<longrightarrow> flags s' = [])
       \<and> (map_of kvs ''path'' = None \<longrightarrow> path s' = [])"
  using assms
  by (auto simp: load_state_def read_json_def bind_r_def Story_get_hp_def get_hp_def
      HealthSystem_init_def Achievements_init_def
      split: sum.splits option.splits)

text \<open>Loading the document \<^verbatim>\<open>{}\<close> into a story that has state of every kind.\<close>

theorem load_state_defaults_witness:
  "load_state hero ''save.json'' (no_files(''save.json'' := Some (Document (PDict []))))
     = Inr (hero\<lparr>health := HealthSystem_init 0, achievements := [], inventory := Inventory_init,
               flags := [], path := []\<rparr>)
   \<and> Story_get_hp (hero\<lparr>health := HealthSystem_init 0, achievements := [],
         inventory := Inventory_init, flags := [], path := []\<rparr>) = 0"
proof -
  let ?files = "no_files(''save.json'' := Some (Document (PDict [])))"
  let ?s' = "hero\<lparr>health := HealthSystem_init 0, achievements := [], inventory := Inventory_init,
               flags := [], path := []\<rparr>"
  have f: "?files ''save.json'' = Some (Document (PDict []))" by simp
  have l: "load_state hero ''save.json'' ?files = Inr ?s'"
    by (simp add: load_state_def read_json_def bind_r_def Achievements_init_def)
  from load_state_defaults [OF f l] l show ?thesis by simp
qed

lemma report_never_raises: "report s e \<noteq> Inl (Raised x)"
  by (simp add: report_def split: fault.splits)

lemma load_achievements_never_raises: "load_achievements xs a \<noteq> Inl (Raised x)"
  by (induction xs a rule: load_achievements.induct) (auto split: option.splits)

text \<open>
  The first half of C7 holds in the terminal variant: \<^verbatim>\<open>load_state\<close> of
  \<^verbatim>\<open>story_engine.py\<close> never raises; a missing resource, text that is not JSON and a
  missing key each end in one message in the buffer, in bold red. There a missing key is
  a reported failure, not a default.
\<close>

theorem load_state_tui_never_raises:
  "load_state_tui s filename files \<noteq> Inl (Raised x)
   \<and> (files filename = None \<longrightarrow>
        load_state_tui s filename files
          = Inr (print_tui s [Lit load_error_msg, Str_of_exn FileNotFoundError]
                   (Some (Style ''bold red''))))
   \<and> (files filename = Some Garbage \<longrightarrow>
        load_state_tui s filename files
          = Inr (print_tui s [Lit load_error_msg, Str_of_exn JSONDecodeError]
                   (Some (Style ''bold red''))))
   \<and> (\<forall>kvs. files filename = Some (Document (PDict kvs)) \<and> map_of kvs ''hp'' = None \<longrightarrow>
        load_state_tui s filename files
          = Inr (print_tui s [Lit load_error_msg, Str_of_exn KeyError]
                   (Some (Style ''bold red''))))"
proof (intro conjI impI allI)
  show "load_state_tui s filename files \<noteq> Inl (Raised x)"
    by (auto simp: load_state_tui_def Let_def report_never_raises load_achievements_never_raises
        split: sum.splits option.splits prod.splits)
qed (auto simp: load_state_tui_def read_json_def report_def)

text \<open>
  No resource: one message. A document with the hit points only: the hit points are
  loaded, then the missing key is reported.
\<close>

theorem load_state_tui_never_raises_witness:
  "load_state_tui empty_story_tui ''save.json'' no_files
     = Inr (empty_story_tui\<lparr>tui_messages :=
              [([Lit load_error_msg, Str_of_exn FileNotFoundError], Some (Style ''bold red''))]\<rparr>)
   \<and> load_state_tui empty_story_tui ''save.json''
        (no_files(''save.json'' := Some (Document (PDict [(''hp'', PInt 4)]))))
     = Inr (empty_story_tui\<lparr>tui_health := HealthSystem_init 4, tui_messages :=
              [([Lit load_error_msg, Str_of_exn KeyError], Some (Style ''bold red''))]\<rparr>)"
proof -
  have "no_files ''save.json'' = None" by (simp add: no_files_def)
  with load_state_tui_never_raises [of empty_story_tui "''save.json''" no_files KeyError]
  have "load_state_tui empty_story_tui ''save.json'' no_files
          = Inr (print_tui empty_story_tui [Lit load_error_msg, Str_of_exn FileNotFoundError]
                   (Some (Style ''bold red'')))"
    by blast
  then show ?thesis
    by (simp add: print_tui_def empty_story_tui_def load_state_tui_def read_json_def no_files_def
        report_def bind_r_def Achievements_init_def)
qed

section \<open>Failures of resolution\<close>

text \<open>
  C6, at the failing input. The claim asks that a cursor segment absent from the NPC's
  own tree give a result \<^verbatim>\<open>{"error": ...}\<close>. \<^verbatim>\<open>NPC._get_node\<close> has no \<^verbatim>\<open>try\<close> (the story's
  \<^verbatim>\<open>_get_node\<close> has one): answering \<^verbatim>\<open>"bribe"\<close>, whose \<^verbatim>\<open>next\<close> names a node the tree does
  not have, raises \<^verbatim>\<open>KeyError\<close>, from \<^verbatim>\<open>talk\<close> and from \<^verbatim>\<open>talk_to\<close>; so does every later
  \<^verbatim>\<open>talk\<close>, the cursor having been assigned before the lookup. The only error result of
  \<^verbatim>\<open>talk\<close> is the one for an answer that is not among the responses.
\<close>

theorem talk_missing_segment_raises:
  "talk guard empty_story (Some ''bribe'') = Inl (Raised KeyError)
   \<and> talk_to (register_npc empty_story guard) ''Guard'' (Some ''bribe'') = Inl (Raised KeyError)
   \<and> talk_view guard empty_story (Some ''fight'') = Inr (error_result ''Invalid choice.'', [])
   \<and> talk (guard\<lparr>dialogue_path := [''bribed'']\<rparr>) empty_story None = Inl (Raised KeyError)"
  by (simp add: talk_def talk_to_def talk_view_def register_npc_def guard_def NPC_init_def
      NPC_get_node_def bind_r_def empty_story_def Story_init_def EventLog_log_def Story_print_def)

text \<open>
  Whatever fault the walk along the NPC's cursor ends in, \<^verbatim>\<open>talk\<close> ends in it, for
  every choice.
\<close>

theorem talk_walk_fault:
  assumes "NPC_get_node npc = Inl e"
  shows "talk npc s choice = Inl e"
  using assms by (simp add: talk_def bind_r_def)

text \<open>The guard with its cursor on the missing node.\<close>

theorem talk_walk_fault_witness:
  "NPC_get_node (guard\<lparr>dialogue_path := [''bribed'']\<rparr>) = Inl (Raised KeyError)
   \<and> talk (guard\<lparr>dialogue_path := [''bribed'']\<rparr>) empty_story (Some ''leave'') = Inl (Raised KeyError)"
proof -
  have a: "NPC_get_node (guard\<lparr>dialogue_path := [''bribed'']\<rparr>) = Inl (Raised KeyError)"
    by (simp add: NPC_get_node_def guard_def NPC_init_def)
  from talk_walk_fault [OF a, of empty_story "Some ''leave''"] a show ?thesis by simp
qed

text \<open>
  The story's own walk catches \<^verbatim>\<open>KeyError\<close> only: a path that runs on through a value
  that is not a mapping (here the text of \<^verbatim>\<open>condition\<close>) makes \<^verbatim>\<open>step\<close> raise \<^verbatim>\<open>TypeError\<close>.
\<close>

theorem step_through_leaf_raises:
  "step hurt_env (forest_story None [''start'', ''condition'', ''x'']) None = Inl (Raised TypeError)"
  by (simp add: step_def Story_get_node_def bind_r_def forest_story_def forest_db_def
      jump_to_def Story_init_def)

end
